theory Spec2Isabelle
  imports Complex_Main "HOL-Library.Word"
begin

section \<open>Data model of SceneManager.cpp\<close>

text \<open>
  The C++ \<open>float\<close> is idealised as \<open>real\<close>: rounding is not modelled, and a
  statement about a computed number holds of the program only where the computation is
  exact. The material fields are stored and copied, never computed with. A \<open>glm::vec\<close>
  is a tuple of its components, a \<open>glm::mat4\<close> the tuple of its four columns (GLM stores
  matrices column by column, \<open>m[col][row]\<close>).
\<close>

type_synonym vec2 = "real \<times> real"
type_synonym vec3 = "real \<times> real \<times> real"
type_synonym vec4 = "real \<times> real \<times> real \<times> real"
type_synonym mat4 = "vec4 \<times> vec4 \<times> vec4 \<times> vec4"

text \<open>
  \<open>TEXTURE_INFO\<close> and \<open>OBJECT_MATERIAL\<close> are declared in SceneManager.h. The texture
  name is the \<open>GLuint\<close> that \<open>CreateGLTexture\<close> stores, an unsigned 32-bit integer; the
  constructor's \<open>ID = -1\<close> is then the word \<open>0xFFFFFFFF\<close>.
\<close>

record TEXTURE_INFO =
  tag :: string
  ID :: "32 word"

record OBJECT_MATERIAL =
  tag :: string
  ambientColor :: vec3
  ambientStrength :: real
  diffuseColor :: vec3
  specularColor :: vec3
  shininess :: real

text \<open>
  The part of the OpenGL context that the texture functions touch: the names of the
  texture objects that exist, and the texture bound to \<open>GL_TEXTURE_2D\<close> on the active unit.
\<close>

record GLContext =
  gl_textures :: "32 word set"
  gl_texture_binding_2d :: "32 word"

text \<open>
  Modelled from the spec: ShaderManager (its source is not part of the repository's
  files) is the spec's UniformBridge, "set a named uniform of type X on the active shader
  program". The program's uniforms are a store from names to values; each setter
  overwrites the entry of its name. \<open>setIntValue\<close> and \<open>setSampler2DValue\<close> both write
  an integer uniform, and a \<open>bool\<close> argument arrives as 0 or 1.
\<close>

datatype uniform_value =
  UInt int
| UFloat real
| UVec2 vec2
| UVec3 vec3
| UVec4 vec4
| UMat4 mat4

record ShaderManager =
  uniforms :: "string \<rightharpoonup> uniform_value"

definition setIntValue :: "string \<Rightarrow> int \<Rightarrow> ShaderManager \<Rightarrow> ShaderManager" where
  "setIntValue name v sh = sh\<lparr>uniforms := (uniforms sh)(name \<mapsto> UInt v)\<rparr>"

definition setSampler2DValue :: "string \<Rightarrow> int \<Rightarrow> ShaderManager \<Rightarrow> ShaderManager" where
  "setSampler2DValue name v sh = sh\<lparr>uniforms := (uniforms sh)(name \<mapsto> UInt v)\<rparr>"

definition setVec4Value :: "string \<Rightarrow> vec4 \<Rightarrow> ShaderManager \<Rightarrow> ShaderManager" where
  "setVec4Value name v sh = sh\<lparr>uniforms := (uniforms sh)(name \<mapsto> UVec4 v)\<rparr>"

definition setMat4Value :: "string \<Rightarrow> mat4 \<Rightarrow> ShaderManager \<Rightarrow> ShaderManager" where
  "setMat4Value name v sh = sh\<lparr>uniforms := (uniforms sh)(name \<mapsto> UMat4 v)\<rparr>"

text \<open>
  The members of \<open>SceneManager\<close> that the functions below read or write.
  \<open>m_pShaderManager\<close> is a pointer that may be \<open>NULL\<close>; \<open>m_textureIDs\<close> is the fixed
  array that the constructor initialises (16 entries), \<open>m_loadedTextures\<close> an \<open>int\<close>;
  \<open>m_objectMaterials\<close> is a \<open>std::vector\<close>. The OpenGL context is global in the program
  and carried along in \<open>gl\<close>.
\<close>

record SceneManager =
  m_pShaderManager :: "ShaderManager option"
  m_textureIDs :: "TEXTURE_INFO list"
  m_loadedTextures :: int
  m_objectMaterials :: "OBJECT_MATERIAL list"
  gl :: GLContext

text \<open>
  Reading or writing \<open>m_textureIDs\<close> outside the array is undefined behaviour in C++;
  the model stops with this fault instead of returning a state.
\<close>

datatype fault = ArrayOutOfBounds

definition g_ModelName :: string where "g_ModelName = ''model''"
definition g_ColorValueName :: string where "g_ColorValueName = ''objectColor''"
definition g_TextureValueName :: string where "g_TextureValueName = ''objectTexture''"
definition g_UseTextureName :: string where "g_UseTextureName = ''bUseTexture''"

section \<open>The constructor\<close>

definition SceneManager_ctor :: "ShaderManager option \<Rightarrow> GLContext \<Rightarrow> SceneManager" where
  "SceneManager_ctor pShaderManager g =
     \<lparr>m_pShaderManager = pShaderManager,
      m_textureIDs = replicate 16 \<lparr>TEXTURE_INFO.tag = ''/0'', ID = - 1\<rparr>,
      m_loadedTextures = 0,
      m_objectMaterials = [],
      gl = g\<rparr>"

section \<open>FindMaterial\<close>

text \<open>
  The \<open>while\<close> loop of \<open>FindMaterial\<close>, on its variables \<open>index\<close>, \<open>bFound\<close> and the
  output parameter \<open>material\<close>. \<open>index < m_objectMaterials.size()\<close> compares as
  \<open>size_t\<close>, so a negative \<open>index\<close> would end the loop. A match copies five fields and
  not the tag.
\<close>

function FindMaterial_loop ::
  "OBJECT_MATERIAL list \<Rightarrow> string \<Rightarrow> int \<Rightarrow> bool \<Rightarrow> OBJECT_MATERIAL \<Rightarrow> OBJECT_MATERIAL"
where
  "FindMaterial_loop mats t index bFound material =
     (if (0 \<le> index \<and> index < int (length mats)) \<and> bFound = False then
        (if OBJECT_MATERIAL.tag (mats ! nat index) = t then
           FindMaterial_loop mats t index True
             (material\<lparr>ambientColor := ambientColor (mats ! nat index),
                       ambientStrength := ambientStrength (mats ! nat index),
                       diffuseColor := diffuseColor (mats ! nat index),
                       specularColor := specularColor (mats ! nat index),
                       shininess := shininess (mats ! nat index)\<rparr>)
         else FindMaterial_loop mats t (index + 1) bFound material)
      else material)"
  by pat_completeness auto
termination
  by (relation "measure (\<lambda>(mats, t, index, bFound, material).
        (if bFound then 0 else 1) + nat (int (length mats) - index))") auto

declare FindMaterial_loop.simps [simp del]

text \<open>
  \<open>FindMaterial(tag, material)\<close>: the returned \<open>bool\<close> and the output parameter after
  the call.
\<close>

definition FindMaterial ::
  "string \<Rightarrow> OBJECT_MATERIAL \<Rightarrow> SceneManager \<Rightarrow> bool \<times> OBJECT_MATERIAL" where
  "FindMaterial t material s =
     (if length (m_objectMaterials s) = 0 then (False, material)
      else (True, FindMaterial_loop (m_objectMaterials s) t 0 False material))"

section \<open>The texture registry\<close>

text \<open>
  What \<open>stbi_load\<close> reports of a decoded image. \<open>stbi_load\<close> returns a null pointer
  when the file cannot be read or decoded: that is \<open>None\<close> below.
\<close>

record stbi_image =
  width :: int
  height :: int
  colorChannels :: int

text \<open>
  OpenGL, as far as texture objects go. \<open>glBindTexture\<close> on a name that has no object
  yet creates the object; the name 0 is the default texture and never an object of its
  own. \<open>glDeleteTextures\<close> ignores 0 and names without an object, and a deleted texture
  that is bound gives way to 0.
\<close>

definition glBindTexture :: "32 word \<Rightarrow> GLContext \<Rightarrow> GLContext" where
  "glBindTexture name g =
     g\<lparr>gl_textures := (if name = 0 then gl_textures g else insert name (gl_textures g)),
       gl_texture_binding_2d := name\<rparr>"

definition glDeleteTextures :: "32 word \<Rightarrow> GLContext \<Rightarrow> GLContext" where
  "glDeleteTextures name g =
     (if name = 0 then g
      else g\<lparr>gl_textures := gl_textures g - {name},
             gl_texture_binding_2d :=
               (if gl_texture_binding_2d g = name then 0 else gl_texture_binding_2d g)\<rparr>)"

text \<open>
  \<open>CreateGLTexture(filename, tag)\<close>. The two answers of the outside world are
  arguments: \<open>loaded\<close> is what \<open>stbi_load(filename, ...)\<close> returns, \<open>textureID\<close> the
  name that \<open>glGenTextures\<close> hands out. The texture parameters, the pixels and the
  mipmaps are not part of the state. The write to
  \<open>m_textureIDs[m_loadedTextures]\<close> has no bounds check in the source.
\<close>

definition CreateGLTexture ::
  "stbi_image option \<Rightarrow> 32 word \<Rightarrow> string \<Rightarrow> SceneManager \<Rightarrow> fault + (bool \<times> SceneManager)"
where
  "CreateGLTexture loaded textureID t s =
     (case loaded of
        Some img \<Rightarrow>
          (let s1 = s\<lparr>gl := glBindTexture textureID (gl s)\<rparr> in
           if colorChannels img = 3 \<or> colorChannels img = 4 then
             (let s2 = s1\<lparr>gl := glBindTexture 0 (gl s1)\<rparr>;
                  n = m_loadedTextures s2
              in if 0 \<le> n \<and> n < int (length (m_textureIDs s2)) then
                   Inr (True,
                        s2\<lparr>m_textureIDs :=
                             (m_textureIDs s2)
                               [nat n := (m_textureIDs s2 ! nat n)
                                           \<lparr>ID := textureID, TEXTURE_INFO.tag := t\<rparr>],
                           m_loadedTextures := n + 1\<rparr>)
                 else Inl ArrayOutOfBounds)
           else Inr (False, s1))
      | None \<Rightarrow> Inr (False, s))"

text \<open>
  \<open>DestroyGLTextures()\<close>: the \<open>for\<close> loop from \<open>i\<close> on. It deletes the texture
  objects and assigns neither \<open>m_loadedTextures\<close> nor \<open>m_textureIDs\<close>.
\<close>

function DestroyGLTextures_loop :: "int \<Rightarrow> SceneManager \<Rightarrow> fault + SceneManager" where
  "DestroyGLTextures_loop i s =
     (if i < m_loadedTextures s then
        (if 0 \<le> i \<and> i < int (length (m_textureIDs s)) then
           DestroyGLTextures_loop (i + 1)
             (s\<lparr>gl := glDeleteTextures (ID (m_textureIDs s ! nat i)) (gl s)\<rparr>)
         else Inl ArrayOutOfBounds)
      else Inr s)"
  by pat_completeness auto
termination
  by (relation "measure (\<lambda>(i, s). nat (m_loadedTextures s - i))") auto

declare DestroyGLTextures_loop.simps [simp del]

definition DestroyGLTextures :: "SceneManager \<Rightarrow> fault + SceneManager" where
  "DestroyGLTextures s = DestroyGLTextures_loop 0 s"

text \<open>
  \<open>FindTextureID(tag)\<close> and \<open>FindTextureSlot(tag)\<close>: the \<open>while\<close> loops on their
  variables. \<open>textureID = m_textureIDs[index].ID\<close> converts the unsigned name to
  \<open>int\<close>, so \<open>0xFFFFFFFF\<close> reads as \<open>-1\<close>.
\<close>

function FindTextureID_loop ::
  "SceneManager \<Rightarrow> string \<Rightarrow> int \<Rightarrow> bool \<Rightarrow> int \<Rightarrow> fault + int"
where
  "FindTextureID_loop s t index bFound textureID =
     (if index < m_loadedTextures s \<and> bFound = False then
        (if 0 \<le> index \<and> index < int (length (m_textureIDs s)) then
           (if TEXTURE_INFO.tag (m_textureIDs s ! nat index) = t then
              FindTextureID_loop s t index True (sint (ID (m_textureIDs s ! nat index)))
            else FindTextureID_loop s t (index + 1) bFound textureID)
         else Inl ArrayOutOfBounds)
      else Inr textureID)"
  by pat_completeness auto
termination
  by (relation "measure (\<lambda>(s, t, index, bFound, textureID).
        (if bFound then 0 else 1) + nat (m_loadedTextures s - index))") auto

declare FindTextureID_loop.simps [simp del]

definition FindTextureID :: "string \<Rightarrow> SceneManager \<Rightarrow> fault + int" where
  "FindTextureID t s = FindTextureID_loop s t 0 False (- 1)"

function FindTextureSlot_loop ::
  "SceneManager \<Rightarrow> string \<Rightarrow> int \<Rightarrow> bool \<Rightarrow> int \<Rightarrow> fault + int"
where
  "FindTextureSlot_loop s t index bFound textureSlot =
     (if index < m_loadedTextures s \<and> bFound = False then
        (if 0 \<le> index \<and> index < int (length (m_textureIDs s)) then
           (if TEXTURE_INFO.tag (m_textureIDs s ! nat index) = t then
              FindTextureSlot_loop s t index True index
            else FindTextureSlot_loop s t (index + 1) bFound textureSlot)
         else Inl ArrayOutOfBounds)
      else Inr textureSlot)"
  by pat_completeness auto
termination
  by (relation "measure (\<lambda>(s, t, index, bFound, textureSlot).
        (if bFound then 0 else 1) + nat (m_loadedTextures s - index))") auto

declare FindTextureSlot_loop.simps [simp del]

definition FindTextureSlot :: "string \<Rightarrow> SceneManager \<Rightarrow> fault + int" where
  "FindTextureSlot t s = FindTextureSlot_loop s t 0 False (- 1)"

section \<open>Shader state\<close>

text \<open>
  \<open>SetShaderColor\<close> and \<open>SetShaderTexture\<close>. Both do nothing when
  \<open>m_pShaderManager\<close> is \<open>NULL\<close>. The \<open>bool\<close> literals passed to \<open>setIntValue\<close> are
  the integers 0 and 1.
\<close>

definition SetShaderColor :: "real \<Rightarrow> real \<Rightarrow> real \<Rightarrow> real \<Rightarrow> SceneManager \<Rightarrow> SceneManager" where
  "SetShaderColor redColorValue greenColorValue blueColorValue alphaValue s =
     (let currentColor = (redColorValue, greenColorValue, blueColorValue, alphaValue)
      in case m_pShaderManager s of
           None \<Rightarrow> s
         | Some sh \<Rightarrow>
             s\<lparr>m_pShaderManager :=
                 Some (setVec4Value g_ColorValueName currentColor
                         (setIntValue g_UseTextureName 0 sh))\<rparr>)"

definition SetShaderTexture :: "string \<Rightarrow> SceneManager \<Rightarrow> fault + SceneManager" where
  "SetShaderTexture textureTag s =
     (case m_pShaderManager s of
        None \<Rightarrow> Inr s
      | Some sh \<Rightarrow>
          (let sh1 = setIntValue g_UseTextureName 1 sh
           in case FindTextureSlot textureTag s of
                Inl f \<Rightarrow> Inl f
              | Inr textureID \<Rightarrow>
                  Inr (s\<lparr>m_pShaderManager :=
                           Some (setSampler2DValue g_TextureValueName textureID sh1)\<rparr>)))"

section \<open>Transformations\<close>

text \<open>
  The GLM functions that \<open>SetTransformations\<close> calls, over the reals.
  \<open>operator*\<close> on a column and a scalar, \<open>operator+\<close> on columns, and the product of
  two matrices, whose column \<open>j\<close> is the first matrix applied to column \<open>j\<close> of the
  second.
\<close>

fun vec4_times :: "vec4 \<Rightarrow> real \<Rightarrow> vec4" where
  "vec4_times (x, y, z, w) k = (x * k, y * k, z * k, w * k)"

fun vec4_plus :: "vec4 \<Rightarrow> vec4 \<Rightarrow> vec4" where
  "vec4_plus (x1, y1, z1, w1) (x2, y2, z2, w2) = (x1 + x2, y1 + y2, z1 + z2, w1 + w2)"

fun mat4_times_vec4 :: "mat4 \<Rightarrow> vec4 \<Rightarrow> vec4" where
  "mat4_times_vec4 (m0, m1, m2, m3) (x, y, z, w) =
     vec4_plus (vec4_plus (vec4_plus (vec4_times m0 x) (vec4_times m1 y)) (vec4_times m2 z))
       (vec4_times m3 w)"

fun mat4_times :: "mat4 \<Rightarrow> mat4 \<Rightarrow> mat4" where
  "mat4_times m (b0, b1, b2, b3) =
     (mat4_times_vec4 m b0, mat4_times_vec4 m b1, mat4_times_vec4 m b2, mat4_times_vec4 m b3)"

text \<open>\<open>glm::mat4(1.0f)\<close>, the matrix that the one-argument transforms start from.\<close>

definition mat4_identity :: mat4 where
  "mat4_identity = ((1, 0, 0, 0), (0, 1, 0, 0), (0, 0, 1, 0), (0, 0, 0, 1))"

definition glm_radians :: "real \<Rightarrow> real" where
  "glm_radians degrees = degrees * (pi / 180)"

fun glm_normalize :: "vec3 \<Rightarrow> vec3" where
  "glm_normalize (x, y, z) =
     (let k = 1 / sqrt (x * x + y * y + z * z) in (x * k, y * k, z * k))"

text \<open>\<open>glm::scale(v)\<close>, \<open>glm::translate(v)\<close> and \<open>glm::rotate(angle, v)\<close> of
  \<open>glm/gtx/transform.hpp\<close>: the transforms of \<open>glm/ext/matrix_transform\<close> applied to the
  identity matrix.\<close>

fun glm_scale :: "vec3 \<Rightarrow> mat4" where
  "glm_scale (vx, vy, vz) =
     (case mat4_identity of (m0, m1, m2, m3) \<Rightarrow>
        (vec4_times m0 vx, vec4_times m1 vy, vec4_times m2 vz, m3))"

fun glm_translate :: "vec3 \<Rightarrow> mat4" where
  "glm_translate (vx, vy, vz) =
     (case mat4_identity of (m0, m1, m2, m3) \<Rightarrow>
        (m0, m1, m2,
         vec4_plus (vec4_plus (vec4_plus (vec4_times m0 vx) (vec4_times m1 vy))
                      (vec4_times m2 vz)) m3))"

definition glm_rotate :: "real \<Rightarrow> vec3 \<Rightarrow> mat4" where
  "glm_rotate angle v =
     (case mat4_identity of (m0, m1, m2, m3) \<Rightarrow>
      (let c = cos angle; s = sin angle in
       case glm_normalize v of (ax, ay, az) \<Rightarrow>
       (let tx = (1 - c) * ax; ty = (1 - c) * ay; tz = (1 - c) * az;
            r00 = c + tx * ax;      r01 = tx * ay + s * az; r02 = tx * az - s * ay;
            r10 = ty * ax - s * az; r11 = c + ty * ay;      r12 = ty * az + s * ax;
            r20 = tz * ax + s * ay; r21 = tz * ay - s * ax; r22 = c + tz * az
        in (vec4_plus (vec4_plus (vec4_times m0 r00) (vec4_times m1 r01)) (vec4_times m2 r02),
            vec4_plus (vec4_plus (vec4_times m0 r10) (vec4_times m1 r11)) (vec4_times m2 r12),
            vec4_plus (vec4_plus (vec4_times m0 r20) (vec4_times m1 r21)) (vec4_times m2 r22),
            m3))))"

text \<open>
  \<open>SetTransformations\<close>: the five matrices, their product in the order of the source
  (\<open>*\<close> associates to the left), and the write to the \<open>model\<close> uniform when a shader
  manager is attached. The arithmetic here is that of the reals. The program computes in
  binary32 and takes \<open>cos\<close> and \<open>sin\<close> from the C library, so this definition gives
  the matrix of the program only at inputs where no step rounds, such as the angles 0
  with scales and translations of 0 and 1; anywhere else the two may differ in the last
  digits.
\<close>

definition SetTransformations ::
  "vec3 \<Rightarrow> real \<Rightarrow> real \<Rightarrow> real \<Rightarrow> vec3 \<Rightarrow> SceneManager \<Rightarrow> SceneManager" where
  "SetTransformations scaleXYZ XrotationDegrees YrotationDegrees ZrotationDegrees positionXYZ s =
     (let scale = glm_scale scaleXYZ;
          rotationX = glm_rotate (glm_radians XrotationDegrees) (1, 0, 0);
          rotationY = glm_rotate (glm_radians YrotationDegrees) (0, 1, 0);
          rotationZ = glm_rotate (glm_radians ZrotationDegrees) (0, 0, 1);
          translation = glm_translate positionXYZ;
          modelView =
            mat4_times (mat4_times (mat4_times (mat4_times translation rotationZ) rotationY)
                          rotationX) scale
      in case m_pShaderManager s of
           None \<Rightarrow> s
         | Some sh \<Rightarrow> s\<lparr>m_pShaderManager := Some (setMat4Value g_ModelName modelView sh)\<rparr>)"

section \<open>The scene's materials and example states\<close>

text \<open>\<open>LoadSceneMaterials\<close> appends the five materials of the desk scene.\<close>

definition floorMaterial :: OBJECT_MATERIAL where
  "floorMaterial = \<lparr>OBJECT_MATERIAL.tag = ''floorMaterial'', ambientColor = (0.2, 0.2, 0.2),
     ambientStrength = 0.5, diffuseColor = (0.8, 0.8, 0.8), specularColor = (1, 1, 1),
     shininess = 32\<rparr>"

definition deskMaterial :: OBJECT_MATERIAL where
  "deskMaterial = \<lparr>OBJECT_MATERIAL.tag = ''deskMaterial'', ambientColor = (0.3, 0.3, 0.3),
     ambientStrength = 0.5, diffuseColor = (0.6, 0.3, 0.3), specularColor = (0.5, 0.5, 0.5),
     shininess = 16\<rparr>"

definition keyboardMaterial :: OBJECT_MATERIAL where
  "keyboardMaterial = \<lparr>OBJECT_MATERIAL.tag = ''keyboardMaterial'', ambientColor = (0.2, 0.2, 0.2),
     ambientStrength = 0.5, diffuseColor = (0.7, 0.7, 0.7), specularColor = (1, 1, 1),
     shininess = 32\<rparr>"

definition monitorMaterial :: OBJECT_MATERIAL where
  "monitorMaterial = \<lparr>OBJECT_MATERIAL.tag = ''monitorMaterial'', ambientColor = (0.2, 0.2, 0.2),
     ambientStrength = 0.5, diffuseColor = (0.9, 0.9, 0.9), specularColor = (1, 1, 1),
     shininess = 128\<rparr>"

definition screenMaterial :: OBJECT_MATERIAL where
  "screenMaterial = \<lparr>OBJECT_MATERIAL.tag = ''screenMaterial'', ambientColor = (0.1, 0.1, 0.1),
     ambientStrength = 0.5, diffuseColor = (0.5, 0.5, 0.5), specularColor = (1, 1, 1),
     shininess = 256\<rparr>"

definition LoadSceneMaterials :: "SceneManager \<Rightarrow> SceneManager" where
  "LoadSceneMaterials s =
     s\<lparr>m_objectMaterials := m_objectMaterials s @
         [floorMaterial, deskMaterial, keyboardMaterial, monitorMaterial, screenMaterial]\<rparr>"

text \<open>
  A run of \<open>CreateGLTexture\<close> calls whose results are dropped, as \<open>LoadSceneTextures\<close>
  makes them: each entry is the decoded image, the OpenGL name and the tag of one call.
\<close>

fun CreateGLTextures ::
  "(stbi_image option \<times> 32 word \<times> string) list \<Rightarrow> SceneManager \<Rightarrow> fault + SceneManager"
where
  "CreateGLTextures [] s = Inr s"
| "CreateGLTextures ((loaded, textureID, t) # rest) s =
     (case CreateGLTexture loaded textureID t s of
        Inl f \<Rightarrow> Inl f
      | Inr (bReturn, s') \<Rightarrow> CreateGLTextures rest s')"

definition rgb_image :: stbi_image where
  "rgb_image = \<lparr>width = 512, height = 512, colorChannels = 3\<rparr>"

definition rgba_image :: stbi_image where
  "rgba_image = \<lparr>width = 512, height = 512, colorChannels = 4\<rparr>"

definition grey_image :: stbi_image where
  "grey_image = \<lparr>width = 512, height = 512, colorChannels = 1\<rparr>"

definition fresh_scene :: SceneManager where
  "fresh_scene =
     SceneManager_ctor (Some \<lparr>uniforms = Map.empty\<rparr>)
       \<lparr>gl_textures = {}, gl_texture_binding_2d = 0\<rparr>"

text \<open>The registry after the first two loads of \<open>LoadSceneTextures\<close>.\<close>

definition two_textures :: "(stbi_image option \<times> 32 word \<times> string) list" where
  "two_textures = [(Some rgb_image, 1, ''floor''), (Some rgb_image, 2, ''screen'')]"

text \<open>Sixteen loads, which fill the array.\<close>

definition sixteen_textures :: "(stbi_image option \<times> 32 word \<times> string) list" where
  "sixteen_textures =
     [(Some rgb_image, 1, ''t01''), (Some rgb_image, 2, ''t02''), (Some rgb_image, 3, ''t03''),
      (Some rgb_image, 4, ''t04''), (Some rgb_image, 5, ''t05''), (Some rgb_image, 6, ''t06''),
      (Some rgb_image, 7, ''t07''), (Some rgb_image, 8, ''t08''), (Some rgb_image, 9, ''t09''),
      (Some rgb_image, 10, ''t10''), (Some rgb_image, 11, ''t11''), (Some rgb_image, 12, ''t12''),
      (Some rgb_image, 13, ''t13''), (Some rgb_image, 14, ''t14''), (Some rgb_image, 15, ''t15''),
      (Some rgb_image, 16, ''t16'')]"

section \<open>Observations and example registries\<close>

text \<open>
  The records of the registry in insertion order: the first \<open>m_loadedTextures\<close> entries
  of the array. The entries behind them are the constructor's placeholders and are never
  looked at by a lookup.
\<close>

definition registered :: "SceneManager \<Rightarrow> TEXTURE_INFO list" where
  "registered s = take (nat (m_loadedTextures s)) (m_textureIDs s)"

text \<open>The value of a uniform of the attached shader program, if there is one.\<close>

definition uniform_of :: "SceneManager \<Rightarrow> string \<Rightarrow> uniform_value option" where
  "uniform_of s name =
     (case m_pShaderManager s of None \<Rightarrow> None | Some sh \<Rightarrow> uniforms sh name)"

text \<open>
  The state in which exactly the records \<open>recs\<close> have been loaded into a freshly
  constructed manager: the array padded with placeholders, the count, the texture
  objects created.
\<close>

definition scene_with :: "TEXTURE_INFO list \<Rightarrow> SceneManager" where
  "scene_with recs =
     \<lparr>m_pShaderManager = Some \<lparr>uniforms = Map.empty\<rparr>,
      m_textureIDs =
        recs @ replicate (16 - length recs) \<lparr>TEXTURE_INFO.tag = ''/0'', ID = - 1\<rparr>,
      m_loadedTextures = int (length recs),
      m_objectMaterials = [],
      gl = \<lparr>gl_textures = ID ` set recs, gl_texture_binding_2d = 0\<rparr>\<rparr>"

definition two_records :: "TEXTURE_INFO list" where
  "two_records =
     [\<lparr>TEXTURE_INFO.tag = ''floor'', ID = 1\<rparr>, \<lparr>TEXTURE_INFO.tag = ''screen'', ID = 2\<rparr>]"

definition sixteen_records :: "TEXTURE_INFO list" where
  "sixteen_records =
     map (\<lambda>(loaded, textureID, t). \<lparr>TEXTURE_INFO.tag = t, ID = textureID\<rparr>) sixteen_textures"

text \<open>A third load that repeats the tag \<open>floor\<close>, and one whose OpenGL name is
  \<open>0xFFFFFFFF\<close>.\<close>

definition floor_again :: "TEXTURE_INFO list" where
  "floor_again = two_records @ [\<lparr>TEXTURE_INFO.tag = ''floor'', ID = 3\<rparr>]"

definition glass_last_name :: "TEXTURE_INFO list" where
  "glass_last_name = two_records @ [\<lparr>TEXTURE_INFO.tag = ''glass'', ID = - 1\<rparr>]"

text \<open>The two-texture state after its texture objects are deleted.\<close>

definition after_destroy :: SceneManager where
  "after_destroy =
     (scene_with two_records)\<lparr>gl := \<lparr>gl_textures = {}, gl_texture_binding_2d = 0\<rparr>\<rparr>"

section \<open>The material table\<close>

lemma FindMaterial_loop_no_match:
  "t \<notin> OBJECT_MATERIAL.tag ` set mats \<Longrightarrow>
   FindMaterial_loop mats t index bFound material = material"
proof (induction mats t index bFound material rule: FindMaterial_loop.induct)
  case (1 mats t index bFound material)
  show ?case
  proof (cases "(0 \<le> index \<and> index < int (length mats)) \<and> bFound = False")
    case True
    then have "nat index < length mats" by linarith
    then have "mats ! nat index \<in> set mats" by (rule nth_mem)
    with "1.prems" have ne: "OBJECT_MATERIAL.tag (mats ! nat index) \<noteq> t" by blast
    have "FindMaterial_loop mats t (index + 1) bFound material = material"
      using "1.IH"(2) True ne "1.prems" by blast
    then show ?thesis
      using True ne by (subst FindMaterial_loop.simps) simp
  next
    case False
    then show ?thesis by (subst FindMaterial_loop.simps) auto
  qed
qed

lemma materials_loaded:
  "m_objectMaterials (LoadSceneMaterials fresh_scene) =
     [floorMaterial, deskMaterial, keyboardMaterial, monitorMaterial, screenMaterial]"
  by (simp add: LoadSceneMaterials_def fresh_scene_def SceneManager_ctor_def)

lemma glassMaterial_not_loaded:
  "''glassMaterial'' \<notin>
     OBJECT_MATERIAL.tag ` set (m_objectMaterials (LoadSceneMaterials fresh_scene))"
  by (simp add: materials_loaded floorMaterial_def deskMaterial_def keyboardMaterial_def
      monitorMaterial_def screenMaterial_def)

text \<open>
  C1. The claim: on a non-empty material table, \<open>FindMaterial\<close> returns \<open>false\<close> for
  a tag that no stored material has. The code keeps \<open>bFound\<close> and then returns \<open>true\<close>
  whatever the loop found: on the table of \<open>LoadSceneMaterials\<close>, the tag
  \<open>glassMaterial\<close> matches no material, and the call returns \<open>true\<close> with the output
  as it was passed in.
\<close>

theorem FindMaterial_unmatched_returns_true:
  "''glassMaterial'' \<notin>
     OBJECT_MATERIAL.tag ` set (m_objectMaterials (LoadSceneMaterials fresh_scene)) \<and>
   FindMaterial ''glassMaterial'' deskMaterial (LoadSceneMaterials fresh_scene) =
     (True, deskMaterial)"
  using glassMaterial_not_loaded
  by (simp add: FindMaterial_def FindMaterial_loop_no_match materials_loaded)

text \<open>
  C10. On a non-empty material table and a tag that no stored material has,
  \<open>FindMaterial\<close> leaves the caller's output material as it was: no field is written.
\<close>

theorem FindMaterial_no_match_leaves_output:
  assumes "m_objectMaterials s \<noteq> []"
    and "t \<notin> OBJECT_MATERIAL.tag ` set (m_objectMaterials s)"
  shows "snd (FindMaterial t material s) = material"
  using assms by (auto simp: FindMaterial_def FindMaterial_loop_no_match)

theorem FindMaterial_no_match_leaves_output_witness:
  "m_objectMaterials (LoadSceneMaterials fresh_scene) \<noteq> [] \<and>
   ''glassMaterial'' \<notin>
     OBJECT_MATERIAL.tag ` set (m_objectMaterials (LoadSceneMaterials fresh_scene)) \<and>
   snd (FindMaterial ''glassMaterial'' deskMaterial (LoadSceneMaterials fresh_scene)) =
     deskMaterial"
proof -
  have ne: "m_objectMaterials (LoadSceneMaterials fresh_scene) \<noteq> []"
    by (simp add: materials_loaded)
  show ?thesis
    using ne glassMaterial_not_loaded
      FindMaterial_no_match_leaves_output [OF ne glassMaterial_not_loaded]
    by simp
qed

section \<open>Texture lookups\<close>

lemma FindTextureSlot_loop_found: "FindTextureSlot_loop s t index True v = Inr v"
  by (subst FindTextureSlot_loop.simps) simp

lemma FindTextureID_loop_found: "FindTextureID_loop s t index True v = Inr v"
  by (subst FindTextureID_loop.simps) simp

lemma FindTextureSlot_loop_no_match:
  assumes "m_loadedTextures s \<le> int (length (m_textureIDs s))" and "0 \<le> index"
    and "\<forall>j. index \<le> j \<and> j < m_loadedTextures s \<longrightarrow>
           TEXTURE_INFO.tag (m_textureIDs s ! nat j) \<noteq> t"
  shows "FindTextureSlot_loop s t index bFound v = Inr v"
  using assms
proof (induction s t index bFound v rule: FindTextureSlot_loop.induct)
  case (1 s t index bFound v)
  show ?case
  proof (cases "index < m_loadedTextures s \<and> bFound = False")
    case True
    with "1.prems" have rng: "0 \<le> index \<and> index < int (length (m_textureIDs s))" by linarith
    from True "1.prems" have ne: "TEXTURE_INFO.tag (m_textureIDs s ! nat index) \<noteq> t" by simp
    have "FindTextureSlot_loop s t (index + 1) bFound v = Inr v"
      using "1.IH"(2) [OF True rng ne] "1.prems" by simp
    then show ?thesis
      using True rng ne by (subst FindTextureSlot_loop.simps) simp
  next
    case False
    then show ?thesis by (subst FindTextureSlot_loop.simps) auto
  qed
qed

lemma FindTextureSlot_loop_first_match:
  assumes "0 \<le> index" and "index \<le> i" and "i < m_loadedTextures s"
    and "i < int (length (m_textureIDs s))"
    and "TEXTURE_INFO.tag (m_textureIDs s ! nat i) = t"
    and "\<forall>j. index \<le> j \<and> j < i \<longrightarrow> TEXTURE_INFO.tag (m_textureIDs s ! nat j) \<noteq> t"
    and "bFound = False"
  shows "FindTextureSlot_loop s t index bFound v = Inr i"
  using assms
proof (induction s t index bFound v rule: FindTextureSlot_loop.induct)
  case (1 s t index bFound v)
  from "1.prems" have cond: "index < m_loadedTextures s \<and> bFound = False" by simp
  from "1.prems" have rng: "0 \<le> index \<and> index < int (length (m_textureIDs s))" by simp
  show ?case
  proof (cases "index = i")
    case True
    then show ?thesis
      using cond rng "1.prems"(5)
      by (subst FindTextureSlot_loop.simps) (simp add: FindTextureSlot_loop_found)
  next
    case False
    with "1.prems" have ne: "TEXTURE_INFO.tag (m_textureIDs s ! nat index) \<noteq> t" by simp
    have "FindTextureSlot_loop s t (index + 1) bFound v = Inr i"
      using "1.IH"(2) [OF cond rng ne] "1.prems" False by simp
    then show ?thesis
      using cond rng ne by (subst FindTextureSlot_loop.simps) simp
  qed
qed

lemma FindTextureID_loop_no_match:
  assumes "m_loadedTextures s \<le> int (length (m_textureIDs s))" and "0 \<le> index"
    and "\<forall>j. index \<le> j \<and> j < m_loadedTextures s \<longrightarrow>
           TEXTURE_INFO.tag (m_textureIDs s ! nat j) \<noteq> t"
  shows "FindTextureID_loop s t index bFound v = Inr v"
  using assms
proof (induction s t index bFound v rule: FindTextureID_loop.induct)
  case (1 s t index bFound v)
  show ?case
  proof (cases "index < m_loadedTextures s \<and> bFound = False")
    case True
    with "1.prems" have rng: "0 \<le> index \<and> index < int (length (m_textureIDs s))" by linarith
    from True "1.prems" have ne: "TEXTURE_INFO.tag (m_textureIDs s ! nat index) \<noteq> t" by simp
    have "FindTextureID_loop s t (index + 1) bFound v = Inr v"
      using "1.IH"(2) [OF True rng ne] "1.prems" by simp
    then show ?thesis
      using True rng ne by (subst FindTextureID_loop.simps) simp
  next
    case False
    then show ?thesis by (subst FindTextureID_loop.simps) auto
  qed
qed

lemma FindTextureID_loop_first_match:
  assumes "0 \<le> index" and "index \<le> i" and "i < m_loadedTextures s"
    and "i < int (length (m_textureIDs s))"
    and "TEXTURE_INFO.tag (m_textureIDs s ! nat i) = t"
    and "\<forall>j. index \<le> j \<and> j < i \<longrightarrow> TEXTURE_INFO.tag (m_textureIDs s ! nat j) \<noteq> t"
    and "bFound = False"
  shows "FindTextureID_loop s t index bFound v = Inr (sint (ID (m_textureIDs s ! nat i)))"
  using assms
proof (induction s t index bFound v rule: FindTextureID_loop.induct)
  case (1 s t index bFound v)
  from "1.prems" have cond: "index < m_loadedTextures s \<and> bFound = False" by simp
  from "1.prems" have rng: "0 \<le> index \<and> index < int (length (m_textureIDs s))" by simp
  show ?case
  proof (cases "index = i")
    case True
    then show ?thesis
      using cond rng "1.prems"(5)
      by (subst FindTextureID_loop.simps) (simp add: FindTextureID_loop_found)
  next
    case False
    with "1.prems" have ne: "TEXTURE_INFO.tag (m_textureIDs s ! nat index) \<noteq> t" by simp
    have "FindTextureID_loop s t (index + 1) bFound v =
            Inr (sint (ID (m_textureIDs s ! nat i)))"
      using "1.IH"(2) [OF cond rng ne] "1.prems" False by simp
    then show ?thesis
      using cond rng ne by (subst FindTextureID_loop.simps) simp
  qed
qed

text \<open>The same facts in terms of the registered records.\<close>

lemma registered_nth:
  "m_loadedTextures s \<le> int (length (m_textureIDs s)) \<Longrightarrow> 0 \<le> j \<Longrightarrow> j < m_loadedTextures s \<Longrightarrow>
   registered s ! nat j = m_textureIDs s ! nat j"
  by (simp add: registered_def nat_less_iff)

lemma length_registered:
  "m_loadedTextures s \<le> int (length (m_textureIDs s)) \<Longrightarrow>
   length (registered s) = nat (m_loadedTextures s)"
  by (simp add: registered_def)

lemma no_match_registered:
  assumes v: "m_loadedTextures s \<le> int (length (m_textureIDs s))"
    and nm: "t \<notin> TEXTURE_INFO.tag ` set (registered s)"
  shows "\<forall>j. 0 \<le> j \<and> j < m_loadedTextures s \<longrightarrow>
           TEXTURE_INFO.tag (m_textureIDs s ! nat j) \<noteq> t"
proof (intro allI impI)
  fix j assume j: "0 \<le> j \<and> j < m_loadedTextures s"
  then have "nat j < length (registered s)" using v by (simp add: length_registered nat_less_iff)
  then have "registered s ! nat j \<in> set (registered s)" by (rule nth_mem)
  moreover have "registered s ! nat j = m_textureIDs s ! nat j"
    using registered_nth [OF v] j by simp
  ultimately show "TEXTURE_INFO.tag (m_textureIDs s ! nat j) \<noteq> t" using nm by force
qed

lemma first_match_registered:
  assumes v: "m_loadedTextures s \<le> int (length (m_textureIDs s))"
    and i: "i < length (registered s)"
    and nm: "t \<notin> TEXTURE_INFO.tag ` set (take i (registered s))"
  shows "\<forall>j. 0 \<le> j \<and> j < int i \<longrightarrow> TEXTURE_INFO.tag (m_textureIDs s ! nat j) \<noteq> t"
proof (intro allI impI)
  fix j assume j: "0 \<le> j \<and> j < int i"
  then have lt: "nat j < i" by linarith
  then have "nat j < length (take i (registered s))" using i by simp
  then have "take i (registered s) ! nat j \<in> set (take i (registered s))" by (rule nth_mem)
  moreover have "take i (registered s) ! nat j = registered s ! nat j" using lt by simp
  moreover have "j < m_loadedTextures s"
    using j i v by (simp add: length_registered) linarith
  then have "registered s ! nat j = m_textureIDs s ! nat j"
    using registered_nth [OF v, of j] j by simp
  ultimately show "TEXTURE_INFO.tag (m_textureIDs s ! nat j) \<noteq> t" using nm by force
qed

lemma FindTextureSlot_returns:
  assumes v: "m_loadedTextures s \<le> int (length (m_textureIDs s))" and "0 \<le> index"
  shows "\<exists>r. FindTextureSlot_loop s t index bFound v0 = Inr r"
  using assms
proof (induction s t index bFound v0 rule: FindTextureSlot_loop.induct)
  case (1 s t index bFound v0)
  show ?case
  proof (cases "index < m_loadedTextures s \<and> bFound = False")
    case True
    with "1.prems" have rng: "0 \<le> index \<and> index < int (length (m_textureIDs s))" by linarith
    show ?thesis
    proof (cases "TEXTURE_INFO.tag (m_textureIDs s ! nat index) = t")
      case True
      then show ?thesis
        using \<open>index < m_loadedTextures s \<and> bFound = False\<close> rng
        by (subst FindTextureSlot_loop.simps) (simp add: FindTextureSlot_loop_found)
    next
      case False
      have "\<exists>r. FindTextureSlot_loop s t (index + 1) bFound v0 = Inr r"
        using "1.IH"(2) [OF True rng False] "1.prems" by simp
      then show ?thesis
        using True rng False by (subst FindTextureSlot_loop.simps) simp
    qed
  next
    case False
    then show ?thesis by (subst FindTextureSlot_loop.simps) auto
  qed
qed

subsection \<open>The example registries\<close>

lemma fresh_scene_empty: "fresh_scene = scene_with []"
  by (simp add: fresh_scene_def SceneManager_ctor_def scene_with_def)

lemma CreateGLTexture_scene_with:
  assumes n: "length recs < 16" and ch: "colorChannels img = 3 \<or> colorChannels img = 4"
    and nz: "textureID \<noteq> 0"
  shows "CreateGLTexture (Some img) textureID t (scene_with recs) =
           Inr (True, scene_with (recs @ [\<lparr>TEXTURE_INFO.tag = t, ID = textureID\<rparr>]))"
proof -
  let ?d = "\<lparr>TEXTURE_INFO.tag = ''/0'', ID = - 1\<rparr>"
  from n have r: "replicate (16 - length recs) ?d = ?d # replicate (16 - Suc (length recs)) ?d"
    by (metis Suc_diff_Suc replicate_Suc)
  show ?thesis
    using n ch nz
    by (simp add: CreateGLTexture_def Let_def scene_with_def glBindTexture_def r)
qed

lemma two_textures_loaded:
  "CreateGLTextures two_textures fresh_scene = Inr (scene_with two_records)"
  by (simp add: two_textures_def fresh_scene_empty CreateGLTexture_scene_with rgb_image_def
      two_records_def)

lemma sixteen_textures_loaded:
  "CreateGLTextures sixteen_textures fresh_scene = Inr (scene_with sixteen_records)"
  by (simp add: sixteen_textures_def fresh_scene_empty CreateGLTexture_scene_with rgb_image_def
      sixteen_records_def)

lemma scene_with_count: "m_loadedTextures (scene_with recs) = int (length recs)"
  by (simp add: scene_with_def)

lemma scene_with_length:
  "length recs \<le> 16 \<Longrightarrow> length (m_textureIDs (scene_with recs)) = 16"
  by (simp add: scene_with_def)

lemma scene_with_registered: "registered (scene_with recs) = recs"
  by (simp add: registered_def scene_with_def)

lemma FindTextureSlot_scene_with_first:
  assumes "i < length recs" and "length recs \<le> 16" and "TEXTURE_INFO.tag (recs ! i) = t"
    and "t \<notin> TEXTURE_INFO.tag ` set (take i recs)"
  shows "FindTextureSlot t (scene_with recs) = Inr (int i)"
    and "FindTextureID t (scene_with recs) = Inr (sint (ID (recs ! i)))"
proof -
  let ?s = "scene_with recs"
  have v: "m_loadedTextures ?s \<le> int (length (m_textureIDs ?s))"
    using assms(2) by (simp add: scene_with_count scene_with_length)
  have i: "i < length (registered ?s)" using assms(1) by (simp add: scene_with_registered)
  have nm: "t \<notin> TEXTURE_INFO.tag ` set (take i (registered ?s))"
    using assms(4) by (simp add: scene_with_registered)
  note q = first_match_registered [OF v i nm]
  have lt: "int i < m_loadedTextures ?s" using assms(1) by (simp add: scene_with_count)
  have ln: "int i < int (length (m_textureIDs ?s))" using lt v by linarith
  have eq: "m_textureIDs ?s ! i = recs ! i" using assms(1) by (simp add: scene_with_def nth_append)
  show "FindTextureSlot t ?s = Inr (int i)"
    unfolding FindTextureSlot_def
    using FindTextureSlot_loop_first_match [of 0 "int i" ?s t False "- 1"] lt ln q eq assms(3)
    by simp
  show "FindTextureID t ?s = Inr (sint (ID (recs ! i)))"
    unfolding FindTextureID_def
    using FindTextureID_loop_first_match [of 0 "int i" ?s t False "- 1"] lt ln q eq assms(3)
    by simp
qed

text \<open>
  C7. In a registry whose count does not exceed the array, a tag that no registered
  texture has makes \<open>FindTextureID\<close> and \<open>FindTextureSlot\<close> return the sentinel
  \<open>-1\<close>, as a value and without a fault; and when the tag is registered, both return
  the first match in insertion order: the name of that record (read as \<open>int\<close>) and its
  index.
\<close>

theorem FindTexture_sentinel_or_first_match:
  assumes v: "m_loadedTextures s \<le> int (length (m_textureIDs s))"
  shows "(t \<notin> TEXTURE_INFO.tag ` set (registered s) \<longrightarrow>
            FindTextureID t s = Inr (- 1) \<and> FindTextureSlot t s = Inr (- 1)) \<and>
         (i < length (registered s) \<and> TEXTURE_INFO.tag (registered s ! i) = t \<and>
          t \<notin> TEXTURE_INFO.tag ` set (take i (registered s)) \<longrightarrow>
            FindTextureID t s = Inr (sint (ID (registered s ! i))) \<and>
            FindTextureSlot t s = Inr (int i))"
proof (intro conjI impI)
  assume nm: "t \<notin> TEXTURE_INFO.tag ` set (registered s)"
  note q = no_match_registered [OF v nm]
  show "FindTextureID t s = Inr (- 1)"
    unfolding FindTextureID_def using v q by (intro FindTextureID_loop_no_match) auto
  show "FindTextureSlot t s = Inr (- 1)"
    unfolding FindTextureSlot_def using v q by (intro FindTextureSlot_loop_no_match) auto
next
  assume a: "i < length (registered s) \<and> TEXTURE_INFO.tag (registered s ! i) = t \<and>
          t \<notin> TEXTURE_INFO.tag ` set (take i (registered s))"
  then have i: "i < length (registered s)" and nm: "t \<notin> TEXTURE_INFO.tag ` set (take i (registered s))"
    by simp_all
  note q = first_match_registered [OF v i nm]
  have lt: "int i < m_loadedTextures s" using i v by (simp add: length_registered)
  have eq: "registered s ! i = m_textureIDs s ! i" using registered_nth [OF v, of "int i"] lt by simp
  have tg: "TEXTURE_INFO.tag (m_textureIDs s ! nat (int i)) = t" using a eq by simp
  have ln: "int i < int (length (m_textureIDs s))" using lt v by linarith
  show "FindTextureID t s = Inr (sint (ID (registered s ! i)))"
    unfolding FindTextureID_def
    using FindTextureID_loop_first_match [of 0 "int i" s t False "- 1"] lt ln tg q eq by simp
  show "FindTextureSlot t s = Inr (int i)"
    unfolding FindTextureSlot_def
    using FindTextureSlot_loop_first_match [of 0 "int i" s t False "- 1"] lt ln tg q by simp
qed

theorem FindTexture_sentinel_or_first_match_witness:
  "m_loadedTextures (scene_with two_records) \<le> int (length (m_textureIDs (scene_with two_records))) \<and>
   ''glass'' \<notin> TEXTURE_INFO.tag ` set (registered (scene_with two_records)) \<and>
   FindTextureID ''glass'' (scene_with two_records) = Inr (- 1) \<and>
   FindTextureSlot ''glass'' (scene_with two_records) = Inr (- 1) \<and>
   registered (scene_with two_records) ! 1 = \<lparr>TEXTURE_INFO.tag = ''screen'', ID = 2\<rparr> \<and>
   ''screen'' \<notin> TEXTURE_INFO.tag ` set (take 1 (registered (scene_with two_records))) \<and>
   FindTextureID ''screen'' (scene_with two_records) = Inr 2 \<and>
   FindTextureSlot ''screen'' (scene_with two_records) = Inr 1"
proof -
  have v: "m_loadedTextures (scene_with two_records)
             \<le> int (length (m_textureIDs (scene_with two_records)))"
    by (simp add: scene_with_count scene_with_length two_records_def)
  show ?thesis
    using v FindTexture_sentinel_or_first_match [OF v, of "''glass''" 0]
      FindTexture_sentinel_or_first_match [OF v, of "''screen''" 1]
    by (simp add: scene_with_registered two_records_def)
qed

section \<open>Loading textures\<close>

lemma registered_gl [simp]: "registered (s\<lparr>gl := g\<rparr>) = registered s"
  by (simp add: registered_def)

lemma TEXTURE_INFO_overwrite:
  "(r::TEXTURE_INFO)\<lparr>ID := a, TEXTURE_INFO.tag := b\<rparr> = \<lparr>TEXTURE_INFO.tag = b, ID = a\<rparr>"
  by (cases r) simp

text \<open>
  C2. The claim: with 16 textures loaded, a 17th \<open>CreateGLTexture\<close> returns \<open>false\<close>,
  adds no record and leaves the 16 records alone. The code has no capacity check. After
  the sixteen loads below the count is 16, and a further load of a three-channel image
  writes \<open>m_textureIDs[16]\<close>, behind the end of the array: the run ends in the fault
  and not in a refusal.
\<close>

theorem CreateGLTexture_seventeenth_overruns:
  "CreateGLTextures sixteen_textures fresh_scene = Inr (scene_with sixteen_records) \<and>
   m_loadedTextures (scene_with sixteen_records) = 16 \<and>
   CreateGLTexture (Some rgb_image) 17 ''t17'' (scene_with sixteen_records) = Inl ArrayOutOfBounds"
proof -
  have len: "length sixteen_records = 16"
    by (simp add: sixteen_records_def sixteen_textures_def)
  have "CreateGLTexture (Some rgb_image) 17 ''t17'' (scene_with sixteen_records) = Inl ArrayOutOfBounds"
    by (simp add: CreateGLTexture_def Let_def rgb_image_def scene_with_def len)
  then show ?thesis
    using sixteen_textures_loaded len by (simp add: scene_with_def)
qed

text \<open>
  C5. An image that decodes with a channel count other than 3 and 4 makes
  \<open>CreateGLTexture\<close> return \<open>false\<close> with the registry as it was: the array, the
  count and so the registered records are unchanged, whatever the registry held.
\<close>

theorem CreateGLTexture_unsupported_channels:
  assumes "colorChannels img \<noteq> 3" and "colorChannels img \<noteq> 4"
  shows "\<exists>s'. CreateGLTexture (Some img) textureID t s = Inr (False, s') \<and>
              m_textureIDs s' = m_textureIDs s \<and> m_loadedTextures s' = m_loadedTextures s \<and>
              registered s' = registered s"
  using assms by (simp add: CreateGLTexture_def Let_def)

theorem CreateGLTexture_unsupported_channels_witness:
  "colorChannels grey_image \<noteq> 3 \<and> colorChannels grey_image \<noteq> 4 \<and>
   (\<exists>s'. CreateGLTexture (Some grey_image) 3 ''desk'' (scene_with two_records) = Inr (False, s') \<and>
      m_textureIDs s' = m_textureIDs (scene_with two_records) \<and> m_loadedTextures s' = 2 \<and>
      registered s' = two_records)"
proof -
  have a: "colorChannels grey_image \<noteq> 3" and b: "colorChannels grey_image \<noteq> 4"
    by (simp_all add: grey_image_def)
  have c: "m_loadedTextures (scene_with two_records) = 2"
    by (simp add: scene_with_def two_records_def)
  show ?thesis
    using a b
      CreateGLTexture_unsupported_channels [OF a b, of 3 "''desk''" "scene_with two_records"]
    by (simp add: scene_with_registered c)
qed

text \<open>
  C6, as amended. For an image that decodes with 3 or 4 channels, a registry with room
  left in the array, and every tag and OpenGL name: \<open>CreateGLTexture\<close> returns
  \<open>true\<close>, appends the record of the tag and the name behind the registered ones, and
  raises the count by one. If no registered texture had the tag, \<open>FindTextureSlot\<close>
  afterwards returns the index of the new record, which is not the sentinel, and
  \<open>FindTextureID\<close> returns its name, which is the sentinel \<open>-1\<close> exactly for the
  name \<open>0xFFFFFFFF\<close>. If the tag was registered before, both lookups keep returning
  the first record that has it.
\<close>

theorem CreateGLTexture_appends_and_resolves:
  assumes ch: "colorChannels img = 3 \<or> colorChannels img = 4"
    and lo: "0 \<le> m_loadedTextures s"
    and hi: "m_loadedTextures s < int (length (m_textureIDs s))"
  shows "\<exists>s'. CreateGLTexture (Some img) textureID t s = Inr (True, s') \<and>
              registered s' = registered s @ [\<lparr>TEXTURE_INFO.tag = t, ID = textureID\<rparr>] \<and>
              m_loadedTextures s' = m_loadedTextures s + 1 \<and>
              (t \<notin> TEXTURE_INFO.tag ` set (registered s) \<longrightarrow>
                 FindTextureSlot t s' = Inr (m_loadedTextures s) \<and>
                 m_loadedTextures s \<noteq> - 1 \<and>
                 FindTextureID t s' = Inr (sint textureID) \<and>
                 (sint textureID = - 1) = (textureID = - 1)) \<and>
              (i < length (registered s) \<and> TEXTURE_INFO.tag (registered s ! i) = t \<and>
               t \<notin> TEXTURE_INFO.tag ` set (take i (registered s)) \<longrightarrow>
                 FindTextureSlot t s' = Inr (int i) \<and>
                 FindTextureID t s' = Inr (sint (ID (registered s ! i))))"
proof -
  define n where "n = m_loadedTextures s"
  define r where "r = \<lparr>TEXTURE_INFO.tag = t, ID = textureID\<rparr>"
  define s' where "s' = s\<lparr>gl := glBindTexture 0 (glBindTexture textureID (gl s)),
                          m_textureIDs := (m_textureIDs s)[nat n := r],
                          m_loadedTextures := n + 1\<rparr>"
  have nlt: "nat n < length (m_textureIDs s)" using lo hi by (simp add: n_def nat_less_iff)
  have run: "CreateGLTexture (Some img) textureID t s = Inr (True, s')"
    using ch lo hi
    by (simp add: CreateGLTexture_def Let_def s'_def n_def r_def TEXTURE_INFO_overwrite)
  have cnt: "m_loadedTextures s' = n + 1" by (simp add: s'_def)
  have arr: "m_textureIDs s' = (m_textureIDs s)[nat n := r]" by (simp add: s'_def)
  have reg: "registered s' = registered s @ [r]"
    using nlt lo
    by (simp add: registered_def cnt arr n_def [symmetric] nat_add_distrib
        take_Suc_conv_app_nth)
  have v: "m_loadedTextures s \<le> int (length (m_textureIDs s))" using hi by simp
  have keep: "m_textureIDs s' ! nat j = m_textureIDs s ! nat j" if "0 \<le> j \<and> j < n" for j
  proof -
    from that have "nat j \<noteq> nat n" by linarith
    then show ?thesis by (simp add: arr)
  qed
  have at: "m_textureIDs s' ! nat n = r" using nlt by (simp add: arr)
  have len: "n < int (length (m_textureIDs s'))" using hi by (simp add: arr n_def)
  have sent: "(sint textureID = - 1) = (textureID = - 1)"
    using word_eq_iff_signed [where ?'a = int, of textureID "- 1"] by simp
  have fresh: "FindTextureSlot t s' = Inr n \<and> FindTextureID t s' = Inr (sint textureID)"
    if new: "t \<notin> TEXTURE_INFO.tag ` set (registered s)"
  proof -
    have old: "\<forall>j. 0 \<le> j \<and> j < n \<longrightarrow> TEXTURE_INFO.tag (m_textureIDs s' ! nat j) \<noteq> t"
      using no_match_registered [OF v new] keep by (simp add: n_def)
    have fid: "FindTextureID t s' = Inr (sint textureID)"
      unfolding FindTextureID_def
      using FindTextureID_loop_first_match [of 0 n s' t False "- 1"] lo len old at cnt
      by (simp add: r_def n_def [symmetric])
    have fslot: "FindTextureSlot t s' = Inr n"
      unfolding FindTextureSlot_def
      using FindTextureSlot_loop_first_match [of 0 n s' t False "- 1"] lo len old at cnt
      by (simp add: r_def n_def [symmetric])
    show ?thesis using fid fslot by simp
  qed
  have again: "FindTextureSlot t s' = Inr (int i) \<and>
               FindTextureID t s' = Inr (sint (ID (registered s ! i)))"
    if a: "i < length (registered s) \<and> TEXTURE_INFO.tag (registered s ! i) = t \<and>
           t \<notin> TEXTURE_INFO.tag ` set (take i (registered s))"
  proof -
    from a have i: "i < length (registered s)"
      and nm: "t \<notin> TEXTURE_INFO.tag ` set (take i (registered s))" by simp_all
    have lt: "int i < n" using i v by (simp add: length_registered n_def)
    have eq: "registered s ! i = m_textureIDs s ! i"
      using registered_nth [OF v, of "int i"] lt by (simp add: n_def)
    have same: "m_textureIDs s' ! i = m_textureIDs s ! i" using keep [of "int i"] lt by simp
    have before: "\<forall>j. 0 \<le> j \<and> j < int i \<longrightarrow>
                    TEXTURE_INFO.tag (m_textureIDs s' ! nat j) \<noteq> t"
    proof (intro allI impI)
      fix j assume j: "0 \<le> j \<and> j < int i"
      then have "m_textureIDs s' ! nat j = m_textureIDs s ! nat j" using keep [of j] lt by simp
      then show "TEXTURE_INFO.tag (m_textureIDs s' ! nat j) \<noteq> t"
        using first_match_registered [OF v i nm] j by simp
    qed
    have tg: "TEXTURE_INFO.tag (m_textureIDs s' ! nat (int i)) = t" using a eq same by simp
    have lt': "int i < m_loadedTextures s'" using lt cnt by simp
    have ln: "int i < int (length (m_textureIDs s'))" using lt len by linarith
    have fslot: "FindTextureSlot t s' = Inr (int i)"
      unfolding FindTextureSlot_def
      using FindTextureSlot_loop_first_match [of 0 "int i" s' t False "- 1"] lt' ln tg before
      by simp
    have fid: "FindTextureID t s' = Inr (sint (ID (registered s ! i)))"
      unfolding FindTextureID_def
      using FindTextureID_loop_first_match [of 0 "int i" s' t False "- 1"] lt' ln tg before
        eq same
      by simp
    show ?thesis using fslot fid by simp
  qed
  have neg: "m_loadedTextures s \<noteq> - 1" using lo by simp
  show ?thesis
    using run reg cnt fresh again sent neg by (auto simp: r_def n_def)
qed

theorem CreateGLTexture_appends_and_resolves_witness:
  "(colorChannels rgba_image = 3 \<or> colorChannels rgba_image = 4) \<and>
   0 \<le> m_loadedTextures (scene_with two_records) \<and>
   m_loadedTextures (scene_with two_records) < int (length (m_textureIDs (scene_with two_records))) \<and>
   ''glass'' \<notin> TEXTURE_INFO.tag ` set (registered (scene_with two_records)) \<and>
   (\<exists>s'. CreateGLTexture (Some rgba_image) 3 ''glass'' (scene_with two_records) = Inr (True, s') \<and>
      registered s' = two_records @ [\<lparr>TEXTURE_INFO.tag = ''glass'', ID = 3\<rparr>] \<and>
      m_loadedTextures s' = 3 \<and>
      FindTextureSlot ''glass'' s' = Inr 2 \<and> FindTextureID ''glass'' s' = Inr 3) \<and>
   0 < length (registered (scene_with two_records)) \<and>
   TEXTURE_INFO.tag (registered (scene_with two_records) ! 0) = ''floor'' \<and>
   ''floor'' \<notin> TEXTURE_INFO.tag ` set (take 0 (registered (scene_with two_records))) \<and>
   (\<exists>s'. CreateGLTexture (Some rgba_image) 3 ''floor'' (scene_with two_records) = Inr (True, s') \<and>
      registered s' = two_records @ [\<lparr>TEXTURE_INFO.tag = ''floor'', ID = 3\<rparr>] \<and>
      m_loadedTextures s' = 3 \<and>
      FindTextureSlot ''floor'' s' = Inr 0 \<and> FindTextureID ''floor'' s' = Inr 1)"
proof -
  have ch: "colorChannels rgba_image = 3 \<or> colorChannels rgba_image = 4"
    by (simp add: rgba_image_def)
  have lo: "0 \<le> m_loadedTextures (scene_with two_records)"
    by (simp add: scene_with_count)
  have hi: "m_loadedTextures (scene_with two_records)
              < int (length (m_textureIDs (scene_with two_records)))"
    by (simp add: scene_with_count scene_with_length two_records_def)
  have two: "m_loadedTextures (scene_with two_records) = 2"
    by (simp add: scene_with_count two_records_def)
  have new: "''glass'' \<notin> TEXTURE_INFO.tag ` set two_records"
    by (simp add: two_records_def)
  have hit: "0 < length two_records \<and> TEXTURE_INFO.tag (two_records ! 0) = ''floor'' \<and>
             sint (ID (two_records ! 0)) = 1"
    by (simp add: two_records_def)
  have glass: "\<exists>s'. CreateGLTexture (Some rgba_image) 3 ''glass'' (scene_with two_records) =
                       Inr (True, s') \<and>
      registered s' = two_records @ [\<lparr>TEXTURE_INFO.tag = ''glass'', ID = 3\<rparr>] \<and>
      m_loadedTextures s' = 3 \<and>
      FindTextureSlot ''glass'' s' = Inr 2 \<and> FindTextureID ''glass'' s' = Inr 3"
    using CreateGLTexture_appends_and_resolves [OF ch lo hi, of 3 "''glass''" 0] new
    by (auto simp: scene_with_registered two)
  have floor: "\<exists>s'. CreateGLTexture (Some rgba_image) 3 ''floor'' (scene_with two_records) =
                       Inr (True, s') \<and>
      registered s' = two_records @ [\<lparr>TEXTURE_INFO.tag = ''floor'', ID = 3\<rparr>] \<and>
      m_loadedTextures s' = 3 \<and>
      FindTextureSlot ''floor'' s' = Inr 0 \<and> FindTextureID ''floor'' s' = Inr 1"
    using CreateGLTexture_appends_and_resolves [OF ch lo hi, of 3 "''floor''" 0] hit
    by (auto simp: scene_with_registered two)
  show ?thesis
    using ch lo hi glass floor new hit by (simp add: scene_with_registered)
qed

text \<open>
  C6 as stated fails for a tag that is already registered and for the name
  \<open>0xFFFFFFFF\<close>. Loading a second \<open>floor\<close> texture succeeds and appends the record
  at index 2, and the lookups still answer with the first \<open>floor\<close> record: slot 0 and
  name 1. Loading \<open>glass\<close> under the name \<open>0xFFFFFFFF\<close> succeeds, and
  \<open>FindTextureID\<close> then returns \<open>-1\<close>, the sentinel.
\<close>

theorem CreateGLTexture_repeated_tag_counterexample:
  "CreateGLTexture (Some rgb_image) 3 ''floor'' (scene_with two_records) =
     Inr (True, scene_with floor_again) \<and>
   registered (scene_with floor_again) ! 2 = \<lparr>TEXTURE_INFO.tag = ''floor'', ID = 3\<rparr> \<and>
   FindTextureSlot ''floor'' (scene_with floor_again) = Inr 0 \<and>
   FindTextureID ''floor'' (scene_with floor_again) = Inr 1 \<and>
   CreateGLTexture (Some rgb_image) (- 1) ''glass'' (scene_with two_records) =
     Inr (True, scene_with glass_last_name) \<and>
   registered (scene_with glass_last_name) ! 2 = \<lparr>TEXTURE_INFO.tag = ''glass'', ID = - 1\<rparr> \<and>
   FindTextureID ''glass'' (scene_with glass_last_name) = Inr (- 1)"
proof -
  have a: "CreateGLTexture (Some rgb_image) 3 ''floor'' (scene_with two_records) =
     Inr (True, scene_with floor_again)"
    by (simp add: CreateGLTexture_scene_with two_records_def rgb_image_def floor_again_def)
  have b: "FindTextureSlot ''floor'' (scene_with floor_again) = Inr 0"
    using FindTextureSlot_scene_with_first(1) [of 0 floor_again "''floor''"]
    by (simp add: floor_again_def two_records_def)
  have c: "FindTextureID ''floor'' (scene_with floor_again) = Inr 1"
    using FindTextureSlot_scene_with_first(2) [of 0 floor_again "''floor''"]
    by (simp add: floor_again_def two_records_def)
  have d: "CreateGLTexture (Some rgb_image) (- 1) ''glass'' (scene_with two_records) =
     Inr (True, scene_with glass_last_name)"
    by (simp add: CreateGLTexture_scene_with two_records_def rgb_image_def glass_last_name_def)
  have e: "FindTextureID ''glass'' (scene_with glass_last_name) = Inr (- 1)"
    using FindTextureSlot_scene_with_first(2) [of 2 glass_last_name "''glass''"]
    by (simp add: glass_last_name_def two_records_def)
  show ?thesis
    using a b c d e
    by (simp add: scene_with_registered floor_again_def glass_last_name_def two_records_def)
qed

section \<open>Deleting the textures\<close>

lemma fold_glDeleteTextures_textures:
  "gl_textures (fold glDeleteTextures ids g) = gl_textures g - (set ids - {0})"
  by (induction ids arbitrary: g) (auto simp: glDeleteTextures_def)

lemma fold_glDeleteTextures_binding:
  "gl_texture_binding_2d (fold glDeleteTextures ids g) =
     (if gl_texture_binding_2d g \<in> set ids - {0} then 0 else gl_texture_binding_2d g)"
  by (induction ids arbitrary: g) (auto simp: glDeleteTextures_def)

lemma fold_glDeleteTextures_more:
  "GLContext.more (fold glDeleteTextures ids g) = GLContext.more g"
  by (induction ids arbitrary: g) (auto simp: glDeleteTextures_def)

lemma fold_glDeleteTextures_twice:
  "fold glDeleteTextures ids (fold glDeleteTextures ids g) = fold glDeleteTextures ids (g::GLContext)"
  by (rule GLContext.equality)
    (auto simp: fold_glDeleteTextures_textures fold_glDeleteTextures_binding)

lemma DestroyGLTextures_loop_eq:
  assumes "m_loadedTextures s \<le> int (length (m_textureIDs s))" and "0 \<le> i"
  shows "DestroyGLTextures_loop i s =
           Inr (s\<lparr>gl := fold glDeleteTextures (map ID (drop (nat i) (registered s))) (gl s)\<rparr>)"
  using assms
proof (induction i s rule: DestroyGLTextures_loop.induct)
  case (1 i s)
  show ?case
  proof (cases "i < m_loadedTextures s")
    case True
    with "1.prems" have rng: "0 \<le> i \<and> i < int (length (m_textureIDs s))" by linarith
    let ?s1 = "s\<lparr>gl := glDeleteTextures (ID (m_textureIDs s ! nat i)) (gl s)\<rparr>"
    have ih: "DestroyGLTextures_loop (i + 1) ?s1 =
                Inr (?s1\<lparr>gl := fold glDeleteTextures
                               (map ID (drop (nat (i + 1)) (registered ?s1))) (gl ?s1)\<rparr>)"
      using "1.IH" [OF True rng] "1.prems" by simp
    have lt: "nat i < length (registered s)"
      using True "1.prems" by (simp add: length_registered nat_less_iff)
    have dr: "drop (nat i) (registered s) =
                (m_textureIDs s ! nat i) # drop (nat (i + 1)) (registered s)"
      using Cons_nth_drop_Suc [OF lt] registered_nth [OF "1.prems"(1) "1.prems"(2) True]
        "1.prems"(2)
      by (simp add: nat_add_distrib)
    show ?thesis
      using True rng ih by (subst DestroyGLTextures_loop.simps) (simp add: dr)
  next
    case False
    then have "drop (nat i) (registered s) = []"
      by (simp add: registered_def)
    then show ?thesis
      using False by (subst DestroyGLTextures_loop.simps) simp
  qed
qed

text \<open>
  C3, as amended. In a registry whose count does not exceed the array,
  \<open>DestroyGLTextures\<close> deletes the texture object of every registered record and
  leaves the registry as it was: the array, the count and the registered records are
  unchanged, so the registry is not emptied. Run on the resulting state once more, it
  returns that state unchanged.
\<close>

theorem DestroyGLTextures_keeps_registry:
  assumes v: "m_loadedTextures s \<le> int (length (m_textureIDs s))"
  shows "\<exists>s'. DestroyGLTextures s = Inr s' \<and>
              gl_textures (gl s') = gl_textures (gl s) - (ID ` set (registered s) - {0}) \<and>
              m_textureIDs s' = m_textureIDs s \<and> m_loadedTextures s' = m_loadedTextures s \<and>
              registered s' = registered s \<and>
              DestroyGLTextures s' = Inr s'"
proof -
  let ?ids = "map ID (registered s)"
  let ?s' = "s\<lparr>gl := fold glDeleteTextures ?ids (gl s)\<rparr>"
  have run: "DestroyGLTextures s = Inr ?s'"
    unfolding DestroyGLTextures_def using DestroyGLTextures_loop_eq [OF v, of 0] by simp
  have v': "m_loadedTextures ?s' \<le> int (length (m_textureIDs ?s'))" using v by simp
  have again: "DestroyGLTextures ?s' = Inr ?s'"
    unfolding DestroyGLTextures_def using DestroyGLTextures_loop_eq [OF v', of 0]
    by (simp add: fold_glDeleteTextures_twice)
  show ?thesis
    using run again by (simp add: fold_glDeleteTextures_textures)
qed

theorem DestroyGLTextures_keeps_registry_witness:
  "m_loadedTextures (scene_with two_records) \<le> int (length (m_textureIDs (scene_with two_records))) \<and>
   (\<exists>s'. DestroyGLTextures (scene_with two_records) = Inr s' \<and>
      gl_textures (gl s') = {} \<and> m_loadedTextures s' = 2 \<and> registered s' = two_records \<and>
      DestroyGLTextures s' = Inr s')"
proof -
  have v: "m_loadedTextures (scene_with two_records)
             \<le> int (length (m_textureIDs (scene_with two_records)))"
    by (simp add: scene_with_count scene_with_length two_records_def)
  have g: "gl_textures (gl (scene_with two_records)) = {1, 2}"
    by (auto simp add: scene_with_def two_records_def)
  have two: "m_loadedTextures (scene_with two_records) = 2"
    by (simp add: scene_with_count two_records_def)
  have d: "{1, 2} - (ID ` set two_records - {0}) = ({} :: 32 word set)"
    by (auto simp: two_records_def)
  from DestroyGLTextures_keeps_registry [OF v] obtain s' where
    "DestroyGLTextures (scene_with two_records) = Inr s'"
    "gl_textures (gl s') = {}" "m_loadedTextures s' = 2" "registered s' = two_records"
    "DestroyGLTextures s' = Inr s'"
    by (auto simp: scene_with_registered g two d)
  with v show ?thesis by blast
qed

text \<open>
  C3 as stated fails in its first half: after \<open>DestroyGLTextures\<close> on the registry of
  two textures the count is still 2, both records are still registered, and the lookups
  still resolve \<open>screen\<close> to slot 1 and to the name 2 of the deleted texture object.
\<close>

theorem DestroyGLTextures_registry_not_empty_counterexample:
  "DestroyGLTextures (scene_with two_records) = Inr after_destroy \<and>
   m_loadedTextures after_destroy = 2 \<and>
   registered after_destroy = two_records \<and>
   FindTextureSlot ''screen'' after_destroy = Inr 1 \<and>
   FindTextureID ''screen'' after_destroy = Inr 2"
proof -
  have v: "m_loadedTextures (scene_with two_records)
             \<le> int (length (m_textureIDs (scene_with two_records)))"
    by (simp add: scene_with_count scene_with_length two_records_def)
  have "fold glDeleteTextures (map ID two_records) (gl (scene_with two_records)) =
          \<lparr>gl_textures = {}, gl_texture_binding_2d = 0\<rparr>"
    by (auto simp: two_records_def scene_with_def glDeleteTextures_def)
  then have run: "DestroyGLTextures (scene_with two_records) = Inr after_destroy"
    unfolding DestroyGLTextures_def after_destroy_def
    using DestroyGLTextures_loop_eq [OF v, of 0] by (simp add: scene_with_registered)
  have v': "m_loadedTextures after_destroy \<le> int (length (m_textureIDs after_destroy))"
    using v by (simp add: after_destroy_def)
  have reg: "registered after_destroy = two_records"
    by (simp add: after_destroy_def scene_with_registered)
  have i: "1 < length (registered after_destroy)" by (simp add: reg two_records_def)
  have nm: "''screen'' \<notin> TEXTURE_INFO.tag ` set (take 1 (registered after_destroy))"
    by (simp add: reg two_records_def)
  note q = first_match_registered [OF v' i nm]
  have cnt: "m_loadedTextures after_destroy = 2"
    by (simp add: after_destroy_def scene_with_count two_records_def)
  have at: "m_textureIDs after_destroy ! 1 = \<lparr>TEXTURE_INFO.tag = ''screen'', ID = 2\<rparr>"
    by (simp add: after_destroy_def scene_with_def two_records_def)
  have ln: "length (m_textureIDs after_destroy) = 16"
    by (simp add: after_destroy_def scene_with_length two_records_def)
  have slot: "FindTextureSlot ''screen'' after_destroy = Inr 1"
    unfolding FindTextureSlot_def
    using FindTextureSlot_loop_first_match [of 0 1 after_destroy "''screen''" False "- 1"]
      q cnt at ln by simp
  have tid: "FindTextureID ''screen'' after_destroy = Inr 2"
    unfolding FindTextureID_def
    using FindTextureID_loop_first_match [of 0 1 after_destroy "''screen''" False "- 1"]
      q cnt at ln by simp
  show ?thesis using run cnt reg slot tid by simp
qed

section \<open>Colour and texture mode\<close>

text \<open>
  C8. With a shader manager attached and a registry whose count does not exceed the
  array, \<open>SetShaderTexture\<close> returns with \<open>bUseTexture\<close> set to 1 (true), whatever
  the tag resolves to, and \<open>SetShaderColor\<close> after it leaves \<open>bUseTexture\<close> at 0
  (false) and \<open>objectColor\<close> at the colour passed; \<open>SetShaderColor\<close> writes these two
  values from any state, so the later call decides the mode of the next draw.
\<close>

theorem SetShaderColor_after_SetShaderTexture:
  assumes v: "m_loadedTextures s \<le> int (length (m_textureIDs s))"
    and sh: "m_pShaderManager s \<noteq> None"
  shows "\<exists>s1. SetShaderTexture textureTag s = Inr s1 \<and>
              uniform_of s1 g_UseTextureName = Some (UInt 1) \<and>
              uniform_of (SetShaderColor r g b a s1) g_UseTextureName = Some (UInt 0) \<and>
              uniform_of (SetShaderColor r g b a s1) g_ColorValueName = Some (UVec4 (r, g, b, a)) \<and>
              uniform_of (SetShaderColor r g b a s) g_UseTextureName = Some (UInt 0) \<and>
              uniform_of (SetShaderColor r g b a s) g_ColorValueName = Some (UVec4 (r, g, b, a))"
proof -
  from sh obtain m where m: "m_pShaderManager s = Some m" by auto
  have "\<exists>r. FindTextureSlot_loop s textureTag 0 False (- 1) = Inr r"
    by (rule FindTextureSlot_returns [OF v]) simp
  then obtain slot where slot: "FindTextureSlot textureTag s = Inr slot"
    unfolding FindTextureSlot_def by auto
  show ?thesis
    using m slot
    by (simp add: SetShaderTexture_def SetShaderColor_def uniform_of_def Let_def setIntValue_def
        setSampler2DValue_def setVec4Value_def g_UseTextureName_def g_ColorValueName_def
        g_TextureValueName_def)
qed

theorem SetShaderColor_after_SetShaderTexture_witness:
  "m_loadedTextures (scene_with two_records) \<le> int (length (m_textureIDs (scene_with two_records))) \<and>
   m_pShaderManager (scene_with two_records) \<noteq> None \<and>
   (\<exists>s1. SetShaderTexture ''screen'' (scene_with two_records) = Inr s1 \<and>
      uniform_of s1 g_UseTextureName = Some (UInt 1) \<and>
      uniform_of (SetShaderColor 1 1 1 1 s1) g_UseTextureName = Some (UInt 0))"
proof -
  have v: "m_loadedTextures (scene_with two_records)
             \<le> int (length (m_textureIDs (scene_with two_records)))"
    by (simp add: scene_with_count scene_with_length two_records_def)
  have sh: "m_pShaderManager (scene_with two_records) \<noteq> None"
    by (simp add: scene_with_def)
  show ?thesis
    using v sh SetShaderColor_after_SetShaderTexture [OF v sh, of "''screen''" 1 1 1 1]
    by blast
qed

section \<open>The model matrix\<close>

text \<open>
  C9. With scale \<open>(1, 1, 1)\<close>, angles \<open>0, 0, 0\<close> and translation \<open>(0, 0, 0)\<close>,
  \<open>SetTransformations\<close> writes the 4 by 4 identity matrix to the \<open>model\<close> uniform.
\<close>

theorem SetTransformations_identity:
  "SetTransformations (1, 1, 1) 0 0 0 (0, 0, 0) (s\<lparr>m_pShaderManager := Some sh\<rparr>) =
   s\<lparr>m_pShaderManager := Some (sh\<lparr>uniforms := (uniforms sh)(''model'' \<mapsto> UMat4
       ((1, 0, 0, 0), (0, 1, 0, 0), (0, 0, 1, 0), (0, 0, 0, 1)))\<rparr>)\<rparr>"
  by (simp add: SetTransformations_def Let_def glm_rotate_def glm_radians_def mat4_identity_def
      setMat4Value_def g_ModelName_def)

end
